theory Spec2Isabelle
  imports Main "HOL-Library.Word" "HOL-Library.Multiset"
begin

unbundle bit_operations_syntax

section \<open>BlueALSA: D-Bus registration and discovery (src/bluealsa.c)\<close>

subsection \<open>Transports and the memory they live in\<close>

text \<open>
  The functions of \<^verbatim>\<open>bluealsa.c\<close> receive a \<^verbatim>\<open>struct ba_transport *\<close> and read or
  write the object behind it; the registry's hash tables hold the same pointers. A
  transport pointer is an address, and the memory is a store from addresses to transport
  structures, so that a write through one pointer is seen through every alias.

  Of \<^verbatim>\<open>struct ba_transport\<close> (declared in a header) the file uses three fields:
  \<^verbatim>\<open>type.profile\<close>, \<^verbatim>\<open>ba_dbus_path\<close> and \<^verbatim>\<open>ba_dbus_id\<close>. The identifier holds what
  \<^verbatim>\<open>g_dbus_connection_register_object\<close> returns, a \<^verbatim>\<open>guint\<close>.
\<close>

type_synonym guint = "32 word"

type_synonym tptr = nat

record ba_transport =
  profile :: "32 word"
  ba_dbus_path :: string
  ba_dbus_id :: guint

type_synonym heap = "tptr \<Rightarrow> ba_transport"

subsection \<open>The D-Bus connection\<close>

text \<open>
  \<^verbatim>\<open>config.dbus\<close> is the GDBus connection. The model keeps what the file can do to it:
  the objects exported on it (registration identifier, object path and the user data
  pointer given at registration) and the chronological list of the calls made on it.

  GLib decides whether a registration succeeds. Its answer is an input of the model:
  \<open>rid\<close> is the value \<^verbatim>\<open>g_dbus_connection_register_object\<close> returns, \<open>0\<close> for a failure
  and the identifier of the exported object otherwise.
\<close>

datatype iface = BLUEALSA_IFACE_MANAGER | bluealsa_iface_pcm

datatype gvariant =
    GV_path_props string "(string \<times> string) list"
  | GV_path string

datatype dbus_call =
    Register_Object string iface tptr guint
  | Unregister_Object guint
  | Emit_Signal string iface string gvariant

record dbus =
  objects :: "(guint \<times> string \<times> tptr) list"
  calls :: "dbus_call list"

definition g_dbus_connection_register_object ::
  "guint \<Rightarrow> string \<Rightarrow> iface \<Rightarrow> tptr \<Rightarrow> dbus \<Rightarrow> guint \<times> dbus" where
  "g_dbus_connection_register_object rid path ifc userdata c =
     (rid,
      c\<lparr>objects := (if rid = 0 then objects c else (rid, path, userdata) # objects c),
        calls := calls c @ [Register_Object path ifc userdata rid]\<rparr>)"

definition g_dbus_connection_unregister_object :: "guint \<Rightarrow> dbus \<Rightarrow> dbus" where
  "g_dbus_connection_unregister_object rid c =
     c\<lparr>objects := filter (\<lambda>e. fst e \<noteq> rid) (objects c),
       calls := calls c @ [Unregister_Object rid]\<rparr>"

definition g_dbus_connection_emit_signal ::
  "string \<Rightarrow> iface \<Rightarrow> string \<Rightarrow> gvariant \<Rightarrow> dbus \<Rightarrow> dbus" where
  "g_dbus_connection_emit_signal path ifc name params c =
     c\<lparr>calls := calls c @ [Emit_Signal path ifc name params]\<rparr>"

record state =
  mem :: heap
  bus :: dbus

subsection \<open>Registering and unregistering a transport\<close>

text \<open>
  \<^verbatim>\<open>bluealsa_dbus_register_transport\<close>: store the result of the registration in
  \<^verbatim>\<open>transport->ba_dbus_id\<close>, emit \<^verbatim>\<open>PCMAdded\<close>, return the identifier (as an
  \<^verbatim>\<open>int\<close>). There is no branch on the result of the registration.
\<close>

definition bluealsa_dbus_register_transport :: "guint \<Rightarrow> tptr \<Rightarrow> state \<Rightarrow> int \<times> state" where
  "bluealsa_dbus_register_transport rid transport s =
     (let (r, c1) = g_dbus_connection_register_object rid
                      (ba_dbus_path (mem s transport)) bluealsa_iface_pcm transport (bus s);
          m = (mem s)(transport := (mem s transport)\<lparr>ba_dbus_id := r\<rparr>);
          c2 = g_dbus_connection_emit_signal ''/org/bluealsa'' BLUEALSA_IFACE_MANAGER
                 ''PCMAdded'' (GV_path_props (ba_dbus_path (m transport)) []) c1
      in (sint (ba_dbus_id (m transport)), \<lparr>mem = m, bus = c2\<rparr>))"

text \<open>
  \<^verbatim>\<open>bluealsa_dbus_unregister_transport\<close>: when the identifier is not zero, unregister the
  object and emit \<^verbatim>\<open>PCMRemoved\<close>. The function has no assignment.
\<close>

definition bluealsa_dbus_unregister_transport :: "tptr \<Rightarrow> state \<Rightarrow> state" where
  "bluealsa_dbus_unregister_transport transport s =
     (if ba_dbus_id (mem s transport) \<noteq> 0 then
        s\<lparr>bus :=
            g_dbus_connection_emit_signal ''/org/bluealsa'' BLUEALSA_IFACE_MANAGER
              ''PCMRemoved'' (GV_path (ba_dbus_path (mem s transport)))
              (g_dbus_connection_unregister_object (ba_dbus_id (mem s transport)) (bus s))\<rparr>
      else s)"

text \<open>Sequences of the two operations on one transport, each registration with GLib's answer.\<close>

datatype op = Expose guint | Retract

fun step :: "tptr \<Rightarrow> state \<Rightarrow> op \<Rightarrow> state" where
  "step p s (Expose rid) = snd (bluealsa_dbus_register_transport rid p s)"
| "step p s Retract = bluealsa_dbus_unregister_transport p s"

definition run :: "tptr \<Rightarrow> state \<Rightarrow> op list \<Rightarrow> state" where
  "run p s ops = foldl (step p) s ops"

text \<open>The answer of the last registration of a sequence, \<open>h\<close> when it has none.\<close>

fun last_bind :: "guint \<Rightarrow> op list \<Rightarrow> guint" where
  "last_bind h [] = h"
| "last_bind h (Expose rid # ops) = last_bind rid ops"
| "last_bind h (Retract # ops) = last_bind h ops"

text \<open>A transport is bound on the bus when an object exported on it carries its pointer.\<close>

definition bound :: "state \<Rightarrow> tptr \<Rightarrow> bool" where
  "bound s p = (p \<in> set (map (\<lambda>e. snd (snd e)) (objects (bus s))))"

definition signals :: "string \<Rightarrow> state \<Rightarrow> dbus_call list" where
  "signals name s =
     filter (\<lambda>c. case c of Emit_Signal _ _ n _ \<Rightarrow> n = name | _ \<Rightarrow> False) (calls (bus s))"

text \<open>
  A scene to run the functions on: an A2DP sink transport at address 0 and everywhere else
  but address 1, where an HFP control (RFCOMM) transport lives; neither was ever exposed,
  and nothing has used the connection yet.
\<close>

definition sink_path :: string where
  "sink_path = ''/org/bluealsa/hci0/dev_AA_BB_CC_DD_EE_FF/a2dp''"

definition rfcomm_path :: string where
  "rfcomm_path = ''/org/bluealsa/hci0/dev_AA_BB_CC_DD_EE_FF/rfcomm''"

definition a2dp_sink :: ba_transport where
  "a2dp_sink = \<lparr>profile = 0x02, ba_dbus_path = sink_path, ba_dbus_id = 0\<rparr>"

definition hfp_rfcomm :: ba_transport where
  "hfp_rfcomm = \<lparr>profile = 0x48, ba_dbus_path = rfcomm_path, ba_dbus_id = 0\<rparr>"

definition fresh :: state where
  "fresh = \<lparr>mem = (\<lambda>p. if p = 1 then hfp_rfcomm else a2dp_sink),
            bus = \<lparr>objects = [], calls = []\<rparr>\<rparr>"

subsection \<open>The registry and the manager's method call\<close>

text \<open>
  An adapter owns a hash table of devices and a device a hash table of transports. The
  method call walks both with \<^verbatim>\<open>g_hash_table_iter_next\<close>, which hands out the values
  in the table's iteration order and is given \<^verbatim>\<open>NULL\<close> for the key. A table is the
  list of its entries in iteration order; the key types belong to other files and stay
  type variables. The device table holds the devices themselves here, since nothing in the
  file writes to a device; the transport table holds pointers.
\<close>

record 'tk ba_device =
  transports :: "('tk \<times> tptr) list"

record ('dk, 'tk) ba_adapter =
  devices :: "('dk \<times> 'tk ba_device) list"

text \<open>
  \<^verbatim>\<open>ba_adapter_lookup\<close> (another file's) answers with the adapter of an index or with
  \<^verbatim>\<open>NULL\<close>; the model takes it as a function. The constants \<^verbatim>\<open>HCI_MAX_DEV\<close> and
  \<^verbatim>\<open>BA_TRANSPORT_PROFILE_RFCOMM\<close> come from headers and are parameters too
  (\<open>HCI_MAX_DEV\<close> and \<open>RFCOMM\<close>).
\<close>

type_synonym ('dk, 'tk) registry = "nat \<Rightarrow> ('dk, 'tk) ba_adapter option"

type_synonym pcm_entry = "string \<times> (string \<times> string) list"

text \<open>The inner loop: a transport with the RFCOMM bit is skipped, any other adds its path
  with an empty property dictionary (\<^verbatim>\<open>NULL\<close>) to the builder.\<close>

fun transports_loop ::
  "32 word \<Rightarrow> heap \<Rightarrow> ('tk \<times> tptr) list \<Rightarrow> pcm_entry list \<Rightarrow> pcm_entry list" where
  "transports_loop RFCOMM h [] pcms = pcms"
| "transports_loop RFCOMM h ((k, t) # iter_t) pcms =
     (if profile (h t) AND RFCOMM \<noteq> 0 then transports_loop RFCOMM h iter_t pcms
      else transports_loop RFCOMM h iter_t (pcms @ [(ba_dbus_path (h t), [])]))"

fun devices_loop ::
  "32 word \<Rightarrow> heap \<Rightarrow> ('dk \<times> 'tk ba_device) list \<Rightarrow> pcm_entry list \<Rightarrow> pcm_entry list" where
  "devices_loop RFCOMM h [] pcms = pcms"
| "devices_loop RFCOMM h ((k, d) # iter_d) pcms =
     devices_loop RFCOMM h iter_d (transports_loop RFCOMM h (transports d) pcms)"

text \<open>The outer loop, over the indices \<open>0, \<dots>, HCI_MAX_DEV - 1\<close> in this order.\<close>

fun adapters_loop ::
  "32 word \<Rightarrow> ('dk, 'tk) registry \<Rightarrow> heap \<Rightarrow> nat list \<Rightarrow> pcm_entry list \<Rightarrow> pcm_entry list" where
  "adapters_loop RFCOMM ba_adapter_lookup h [] pcms = pcms"
| "adapters_loop RFCOMM ba_adapter_lookup h (i # rest) pcms =
     (case ba_adapter_lookup i of
        None \<Rightarrow> adapters_loop RFCOMM ba_adapter_lookup h rest pcms
      | Some a \<Rightarrow>
          adapters_loop RFCOMM ba_adapter_lookup h rest (devices_loop RFCOMM h (devices a) pcms))"

text \<open>The value handed to \<^verbatim>\<open>g_dbus_method_invocation_return_value\<close>: the array built.\<close>

definition bluealsa_manager_method_call ::
  "nat \<Rightarrow> 32 word \<Rightarrow> ('dk, 'tk) registry \<Rightarrow> heap \<Rightarrow> pcm_entry list" where
  "bluealsa_manager_method_call HCI_MAX_DEV RFCOMM ba_adapter_lookup h =
     adapters_loop RFCOMM ba_adapter_lookup h [0..<HCI_MAX_DEV] []"

text \<open>Every transport pointer the walk meets, in the order of the walk.\<close>

definition device_transports :: "'tk ba_device \<Rightarrow> tptr list" where
  "device_transports d = map snd (transports d)"

definition adapter_transports :: "('dk, 'tk) ba_adapter \<Rightarrow> tptr list" where
  "adapter_transports a = concat (map (\<lambda>e. device_transports (snd e)) (devices a))"

definition registry_transports :: "nat \<Rightarrow> ('dk, 'tk) registry \<Rightarrow> tptr list" where
  "registry_transports HCI_MAX_DEV ba_adapter_lookup =
     concat (map (\<lambda>i. case ba_adapter_lookup i of None \<Rightarrow> [] | Some a \<Rightarrow> adapter_transports a)
       [0..<HCI_MAX_DEV])"

definition pcm_of :: "heap \<Rightarrow> tptr \<Rightarrow> pcm_entry" where
  "pcm_of h t = (ba_dbus_path (h t), [])"

definition audio :: "32 word \<Rightarrow> heap \<Rightarrow> tptr \<Rightarrow> bool" where
  "audio RFCOMM h t = (profile (h t) AND RFCOMM = 0)"

text \<open>
  Two registries with the same content, whatever the iteration order of their tables:
  the same entries in every transport table and the same devices in every device table,
  as multisets.
\<close>

definition device_content :: "'tk ba_device \<Rightarrow> ('tk \<times> tptr) multiset" where
  "device_content d = mset (transports d)"

definition adapter_content ::
  "('dk, 'tk) ba_adapter \<Rightarrow> ('dk \<times> ('tk \<times> tptr) multiset) multiset" where
  "adapter_content a = mset (map (\<lambda>e. (fst e, device_content (snd e))) (devices a))"

definition same_registry ::
  "nat \<Rightarrow> ('dk, 'tk) registry \<Rightarrow> ('dk, 'tk) registry \<Rightarrow> bool" where
  "same_registry HCI_MAX_DEV l l' =
     (\<forall>i<HCI_MAX_DEV. map_option adapter_content (l i) = map_option adapter_content (l' i))"

text \<open>
  The registry of the scene: adapter 0 alone, with one device that holds the two
  transports; and the same registry with the transport table iterated the other way round.
\<close>

definition hci0 :: "(string, string) ba_adapter" where
  "hci0 = \<lparr>devices = [(''AA:BB:CC:DD:EE:FF'',
             \<lparr>transports = [(''a2dp'', 0), (''rfcomm'', 1)]\<rparr>)]\<rparr>"

definition hci0_swapped :: "(string, string) ba_adapter" where
  "hci0_swapped = \<lparr>devices = [(''AA:BB:CC:DD:EE:FF'',
             \<lparr>transports = [(''rfcomm'', 1), (''a2dp'', 0)]\<rparr>)]\<rparr>"

definition reg0 :: "(string, string) registry" where
  "reg0 i = (if i = 0 then Some hci0 else None)"

definition reg0_swapped :: "(string, string) registry" where
  "reg0_swapped i = (if i = 0 then Some hci0_swapped else None)"

subsection \<open>The property handler of a transport object\<close>

datatype gquark = G_DBUS_ERROR | G_IO_ERROR

datatype gdbus_error =
    G_DBUS_ERROR_FAILED
  | G_DBUS_ERROR_NO_MEMORY
  | G_DBUS_ERROR_INVALID_ARGS
  | G_DBUS_ERROR_UNKNOWN_PROPERTY

record gerror =
  domain :: gquark
  code :: gdbus_error
  message :: string

text \<open>
  \<^verbatim>\<open>bluealsa_transport_get_property\<close> stores a new error in \<^verbatim>\<open>*error\<close> and returns
  \<^verbatim>\<open>NULL\<close>: the model returns the pair. The message is the format
  \<^verbatim>\<open>No such property '%s'\<close> filled with the property's name.
\<close>

definition bluealsa_transport_get_property ::
  "'conn \<Rightarrow> string \<Rightarrow> string \<Rightarrow> string \<Rightarrow> string \<Rightarrow> tptr \<Rightarrow> gerror \<times> gvariant option" where
  "bluealsa_transport_get_property conn sender path interface property userdata =
     (\<lparr>domain = G_DBUS_ERROR, code = G_DBUS_ERROR_INVALID_ARGS,
       message = ''No such property '' @ [CHR 0x27] @ property @ [CHR 0x27]\<rparr>,
      None)"

subsection \<open>The global configuration and its initialisation\<close>

text \<open>
  Of \<^verbatim>\<open>struct ba_config\<close> the record keeps the members the initialiser of \<^verbatim>\<open>config\<close>
  sets without a header's constants and the members \<^verbatim>\<open>bluealsa_config_init\<close> writes;
  a member the initialiser does not name starts as zero (\<^verbatim>\<open>NULL\<close>). The HFP feature
  masks are sums of constants of \<^verbatim>\<open>hfp.h\<close> and no function of the file reads them.
\<close>

record gr_group =
  gr_name :: string
  gr_gid :: "32 word"

record 'c ba_config =
  enable_a2dp_source :: bool
  enable_hfp_ag :: bool
  enable_hsp_ag :: bool
  null_fd :: int
  gid_audio :: "32 word"
  a2dp_volume :: bool
  a2dp_force_mono :: bool
  a2dp_force_44100 :: bool
  a2dp_keep_alive :: int
  a2dp_codecs :: "'c option"
  hci_filter :: "string list option"
  main_thread :: nat

definition config :: "'c ba_config" where
  "config =
     \<lparr>enable_a2dp_source = True, enable_hfp_ag = True, enable_hsp_ag = True,
      null_fd = - 1, gid_audio = - 1,
      a2dp_volume = False, a2dp_force_mono = False, a2dp_force_44100 = False,
      a2dp_keep_alive = 0, a2dp_codecs = None, hci_filter = None, main_thread = 0\<rparr>"

text \<open>
  What the host answers to the calls of \<^verbatim>\<open>bluealsa_config_init\<close>: \<open>sys_open\<close> is the
  result of \<^verbatim>\<open>open\<close> on a path (a descriptor, or \<open>-1\<close> when it fails), \<open>getgrnam\<close> the
  group of a name or \<^verbatim>\<open>NULL\<close>, \<open>pthread_self\<close> the calling thread,
  \<open>bluez_a2dp_codecs\<close> the codec table of another file.
\<close>

record 'c host =
  sys_open :: "string \<Rightarrow> int"
  getgrnam :: "string \<Rightarrow> gr_group option"
  pthread_self :: nat
  bluez_a2dp_codecs :: 'c

definition bluealsa_config_init :: "'c host \<Rightarrow> 'c ba_config \<Rightarrow> int \<times> 'c ba_config" where
  "bluealsa_config_init host cfg =
     (let cfg1 = cfg\<lparr>hci_filter := Some []\<rparr>;
          cfg2 = cfg1\<lparr>main_thread := pthread_self host\<rparr>;
          cfg3 = cfg2\<lparr>null_fd := sys_open host ''/dev/null''\<rparr>;
          cfg4 = (case getgrnam host ''audio'' of
                    Some grp \<Rightarrow> cfg3\<lparr>gid_audio := gr_gid grp\<rparr>
                  | None \<Rightarrow> cfg3);
          cfg5 = cfg4\<lparr>a2dp_codecs := Some (bluez_a2dp_codecs host)\<rparr>
      in (0, cfg5))"

text \<open>
  Two hosts: one where \<^verbatim>\<open>/dev/null\<close> cannot be opened (and the group exists), one
  without the group \<^verbatim>\<open>audio\<close> (where the descriptor is 3).
\<close>

definition host_without_dev_null :: "unit host" where
  "host_without_dev_null =
     \<lparr>sys_open = (\<lambda>path. - 1),
      getgrnam = (\<lambda>name. if name = ''audio''
                           then Some \<lparr>gr_name = ''audio'', gr_gid = 29\<rparr> else None),
      pthread_self = 1, bluez_a2dp_codecs = ()\<rparr>"

definition host_without_audio_group :: "unit host" where
  "host_without_audio_group =
     \<lparr>sys_open = (\<lambda>path. 3), getgrnam = (\<lambda>name. None),
      pthread_self = 1, bluez_a2dp_codecs = ()\<rparr>"

section \<open>Properties of registration\<close>

lemma register_mem:
  "mem (snd (bluealsa_dbus_register_transport rid p s)) =
     (mem s)(p := (mem s p)\<lparr>ba_dbus_id := rid\<rparr>)"
  by (simp add: bluealsa_dbus_register_transport_def g_dbus_connection_register_object_def
      g_dbus_connection_emit_signal_def Let_def)

lemma register_calls:
  "calls (bus (snd (bluealsa_dbus_register_transport rid p s))) =
     calls (bus s) @
       [Register_Object (ba_dbus_path (mem s p)) bluealsa_iface_pcm p rid,
        Emit_Signal ''/org/bluealsa'' BLUEALSA_IFACE_MANAGER ''PCMAdded''
          (GV_path_props (ba_dbus_path (mem s p)) [])]"
  by (simp add: bluealsa_dbus_register_transport_def g_dbus_connection_register_object_def
      g_dbus_connection_emit_signal_def Let_def)

lemma register_objects:
  "objects (bus (snd (bluealsa_dbus_register_transport rid p s))) =
     (if rid = 0 then objects (bus s) else (rid, ba_dbus_path (mem s p), p) # objects (bus s))"
  by (simp add: bluealsa_dbus_register_transport_def g_dbus_connection_register_object_def
      g_dbus_connection_emit_signal_def Let_def)

lemma register_result:
  "fst (bluealsa_dbus_register_transport rid p s) = sint rid"
  by (simp add: bluealsa_dbus_register_transport_def g_dbus_connection_register_object_def
      g_dbus_connection_emit_signal_def Let_def)

lemma unregister_mem: "mem (bluealsa_dbus_unregister_transport p s) = mem s"
  by (simp add: bluealsa_dbus_unregister_transport_def)

lemma unregister_calls:
  "calls (bus (bluealsa_dbus_unregister_transport p s)) =
     calls (bus s) @
       (if ba_dbus_id (mem s p) \<noteq> 0
        then [Unregister_Object (ba_dbus_id (mem s p)),
              Emit_Signal ''/org/bluealsa'' BLUEALSA_IFACE_MANAGER ''PCMRemoved''
                (GV_path (ba_dbus_path (mem s p)))]
        else [])"
  by (simp add: bluealsa_dbus_unregister_transport_def g_dbus_connection_unregister_object_def
      g_dbus_connection_emit_signal_def)

lemma step_handle:
  "ba_dbus_id (mem (step p s x) p) = last_bind (ba_dbus_id (mem s p)) [x]"
  by (cases x) (simp_all add: register_mem unregister_mem)

lemma run_handle:
  "ba_dbus_id (mem (run p s ops) p) = last_bind (ba_dbus_id (mem s p)) ops"
proof (induction ops arbitrary: s)
  case Nil
  show ?case by (simp add: run_def)
next
  case (Cons x ops)
  have "run p s (x # ops) = run p (step p s x) ops"
    by (simp add: run_def)
  then show ?case
    using Cons.IH [of "step p s x"] step_handle [of p s x]
    by (cases x) simp_all
qed

lemma last_bind_nonzero:
  "last_bind h ops \<noteq> 0 \<Longrightarrow> h = 0 \<Longrightarrow> \<exists>rid. rid \<noteq> 0 \<and> Expose rid \<in> set ops"
proof (induction h ops rule: last_bind.induct)
  case (1 h)
  then show ?case by simp
next
  case (2 h rid ops)
  show ?case
  proof (cases "rid = 0")
    case True
    with 2 show ?thesis by auto
  next
    case False
    then show ?thesis by auto
  qed
next
  case (3 h ops)
  then show ?case by auto
qed


lemma step_Expose_bound: "rid \<noteq> 0 \<Longrightarrow> bound (step p s (Expose rid)) p"
  by (simp add: bound_def register_objects)

text \<open>
  C10. \<^verbatim>\<open>bluealsa_dbus_unregister_transport\<close> writes to no transport: after the call the
  whole memory, and so every field of the transport it was given (the identifier
  \<^verbatim>\<open>ba_dbus_id\<close> and the path \<^verbatim>\<open>ba_dbus_path\<close> among them), is what it was before,
  whether the identifier was zero on entry or not.
\<close>

theorem unregister_writes_nothing:
  "mem (bluealsa_dbus_unregister_transport p s) = mem s"
  by (simp add: bluealsa_dbus_unregister_transport_def)

text \<open>
  The part of the retract contract the code keeps: with a zero identifier the call changes
  nothing, so no object is unregistered and no signal is emitted.
\<close>

lemma unregister_zero_handle_noop:
  "ba_dbus_id (mem s p) = 0 \<Longrightarrow> bluealsa_dbus_unregister_transport p s = s"
  by (simp add: bluealsa_dbus_unregister_transport_def)

text \<open>
  C2. Retract is to be idempotent: two calls in a row on one transport are to emit at most
  one \<^verbatim>\<open>PCMRemoved\<close>. The guard on \<^verbatim>\<open>ba_dbus_id\<close> is there for it, but the
  function never clears the identifier, so the second call passes the guard again: on a
  transport exposed with identifier 1, no \<^verbatim>\<open>PCMRemoved\<close> was emitted before the two
  calls and two have been emitted after them.
\<close>

theorem unregister_twice_two_signals:
  "length (signals ''PCMRemoved'' (run 0 fresh [Expose 1])) = 0 \<and>
   length (signals ''PCMRemoved'' (run 0 fresh [Expose 1, Retract, Retract])) = 2"
  by (simp add: run_def signals_def register_calls register_mem unregister_calls unregister_mem
      fresh_def)

text \<open>
  The parts of the handle contract the code keeps: right after a successful registration
  the identifier is not zero and the transport is bound; and an identifier that was zero
  before a sequence of the two operations and is not zero after it has seen a successful
  registration in the sequence.
\<close>

lemma handle_nonzero_after_expose:
  "rid \<noteq> 0 \<Longrightarrow>
     ba_dbus_id (mem (step p s (Expose rid)) p) \<noteq> 0 \<and> bound (step p s (Expose rid)) p"
  using step_Expose_bound [of rid p s] by (simp add: register_mem)

lemma handle_nonzero_needs_expose:
  assumes "ba_dbus_id (mem s p) = 0" and "ba_dbus_id (mem (run p s ops) p) \<noteq> 0"
  shows "\<exists>r. r \<noteq> 0 \<and> Expose r \<in> set ops"
proof -
  from assms(2) have "last_bind (ba_dbus_id (mem s p)) ops \<noteq> 0"
    unfolding run_handle .
  then show ?thesis
    using assms(1) by (rule last_bind_nonzero)
qed

text \<open>
  C1. The identifier is to be zero right after a retract, and non-zero exactly while the
  transport is bound on the bus. The code does not clear it: after a successful
  registration (identifier 1) and one unregistration the identifier is still 1 and no
  object of the transport is left on the bus; and after a successful registration
  followed by a failed one the identifier is zero while the first object is still
  exported.
\<close>

theorem handle_stale_after_unregister:
  "ba_dbus_id (mem (run 0 fresh [Expose 1, Retract]) 0) = 1 \<and>
   \<not> bound (run 0 fresh [Expose 1, Retract]) 0 \<and>
   ba_dbus_id (mem (run 0 fresh [Expose 1, Expose 0]) 0) = 0 \<and>
   bound (run 0 fresh [Expose 1, Expose 0]) 0"
  by (simp add: run_def bound_def fresh_def a2dp_sink_def bluealsa_dbus_register_transport_def
      bluealsa_dbus_unregister_transport_def g_dbus_connection_register_object_def
      g_dbus_connection_unregister_object_def g_dbus_connection_emit_signal_def Let_def)

text \<open>
  C3. When the registration fails (GLib answers 0) the identifier is zero, the caller
  gets 0 and nothing is exported, but the call has still emitted \<^verbatim>\<open>PCMAdded\<close> for the
  path, right after the attempt. Unregistering the transport afterwards emits nothing,
  so the notification is never taken back.
\<close>

theorem register_failed_bind_still_notifies:
  "fst (bluealsa_dbus_register_transport 0 p s) = 0 \<and>
   ba_dbus_id (mem (snd (bluealsa_dbus_register_transport 0 p s)) p) = 0 \<and>
   objects (bus (snd (bluealsa_dbus_register_transport 0 p s))) = objects (bus s) \<and>
   calls (bus (snd (bluealsa_dbus_register_transport 0 p s))) =
     calls (bus s) @
       [Register_Object (ba_dbus_path (mem s p)) bluealsa_iface_pcm p 0,
        Emit_Signal ''/org/bluealsa'' BLUEALSA_IFACE_MANAGER ''PCMAdded''
          (GV_path_props (ba_dbus_path (mem s p)) [])] \<and>
   bluealsa_dbus_unregister_transport p (snd (bluealsa_dbus_register_transport 0 p s)) =
     snd (bluealsa_dbus_register_transport 0 p s)"
  by (simp add: register_result register_mem register_objects register_calls
      bluealsa_dbus_unregister_transport_def)

section \<open>Properties of the manager's method call\<close>

lemma transports_loop_eq:
  "transports_loop rf h ts pcms = pcms @ map (pcm_of h) (filter (audio rf h) (map snd ts))"
  by (induction ts arbitrary: pcms) (auto simp: pcm_of_def audio_def)

lemma devices_loop_eq:
  "devices_loop rf h ds pcms =
     pcms @ map (pcm_of h) (filter (audio rf h) (concat (map (\<lambda>e. device_transports (snd e)) ds)))"
  by (induction ds arbitrary: pcms) (auto simp: transports_loop_eq device_transports_def)

lemma adapters_loop_eq:
  "adapters_loop rf l h idx pcms =
     pcms @ map (pcm_of h) (filter (audio rf h)
       (concat (map (\<lambda>i. case l i of None \<Rightarrow> [] | Some a \<Rightarrow> adapter_transports a) idx)))"
  by (induction idx arbitrary: pcms)
     (auto simp: devices_loop_eq adapter_transports_def split: option.splits)

lemma method_call_eq:
  "bluealsa_manager_method_call n rf l h =
     map (pcm_of h) (filter (audio rf h) (registry_transports n l))"
  by (simp add: bluealsa_manager_method_call_def registry_transports_def adapters_loop_eq)

lemma method_call_register:
  "bluealsa_manager_method_call n rf l (mem (snd (bluealsa_dbus_register_transport rid p s))) =
   bluealsa_manager_method_call n rf l (mem s)"
proof -
  have "pcm_of (mem (snd (bluealsa_dbus_register_transport rid p s))) = pcm_of (mem s)"
    by (rule ext) (simp add: pcm_of_def register_mem)
  moreover have "audio rf (mem (snd (bluealsa_dbus_register_transport rid p s))) = audio rf (mem s)"
    by (rule ext) (simp add: audio_def register_mem)
  ultimately show ?thesis
    by (simp add: method_call_eq)
qed

lemma mset_devices_transports:
  "mset (concat (map (\<lambda>e. device_transports (snd e)) ds)) =
     (\<Sum>c \<in># mset (map (\<lambda>e. (fst e, device_content (snd e))) ds). image_mset snd (snd c))"
  by (induction ds) (simp_all add: device_transports_def device_content_def)

lemma mset_adapter_transports:
  "mset (adapter_transports a) = (\<Sum>c \<in># adapter_content a. image_mset snd (snd c))"
  by (simp only: adapter_transports_def adapter_content_def mset_devices_transports)

lemma same_adapter_transports:
  "map_option adapter_content x = map_option adapter_content y \<Longrightarrow>
   mset (case x of None \<Rightarrow> [] | Some a \<Rightarrow> adapter_transports a) =
   mset (case y of None \<Rightarrow> [] | Some a \<Rightarrow> adapter_transports a)"
  by (cases x; cases y) (simp_all add: mset_adapter_transports)

lemma mset_concat_map_cong:
  "(\<And>i. i \<in> set idx \<Longrightarrow> mset (f i) = mset (g i)) \<Longrightarrow>
   mset (concat (map f idx)) = mset (concat (map g idx))"
  by (induction idx) simp_all

lemma same_registry_transports:
  assumes "same_registry n l l'"
  shows "mset (registry_transports n l) = mset (registry_transports n l')"
  unfolding registry_transports_def
proof (rule mset_concat_map_cong)
  fix i assume "i \<in> set [0..<n]"
  then have "i < n" by simp
  with assms have "map_option adapter_content (l i) = map_option adapter_content (l' i)"
    by (simp add: same_registry_def)
  then show "mset (case l i of None \<Rightarrow> [] | Some a \<Rightarrow> adapter_transports a) =
      mset (case l' i of None \<Rightarrow> [] | Some a \<Rightarrow> adapter_transports a)"
    by (rule same_adapter_transports)
qed

lemma same_registry_reply:
  assumes "same_registry n l l'"
  shows "mset (bluealsa_manager_method_call n rf l h) = mset (bluealsa_manager_method_call n rf l' h)"
proof -
  have "mset (map (pcm_of h) (filter (audio rf h) (registry_transports n l))) =
        image_mset (pcm_of h) (filter_mset (audio rf h) (mset (registry_transports n l)))"
    by simp
  also have "\<dots> = image_mset (pcm_of h) (filter_mset (audio rf h) (mset (registry_transports n l')))"
    by (simp only: same_registry_transports [OF assms])
  also have "\<dots> = mset (map (pcm_of h) (filter (audio rf h) (registry_transports n l')))"
    by simp
  finally show ?thesis
    by (simp only: method_call_eq)
qed


lemma only_adapter_0:
  assumes "0 < n" and "l 0 = Some a" and "\<forall>i. 0 < i \<longrightarrow> l i = None"
  shows "registry_transports n l = adapter_transports a"
proof -
  have rest: "concat (map (\<lambda>i. case l i of None \<Rightarrow> [] | Some a \<Rightarrow> adapter_transports a) [Suc 0..<n]) = []"
    using assms(3) by simp
  have "[0..<n] = 0 # [Suc 0..<n]"
    using assms(1) by (simp add: upt_conv_Cons)
  then show ?thesis
    using rest assms(2) by (simp add: registry_transports_def)
qed

text \<open>
  C4. The reply of the manager's method call is made of the transports the walk meets whose
  profile has no RFCOMM bit, one entry each, in the order of the walk: every entry is the
  path of such a transport, with an empty property dictionary. Where the paths of the
  registry's transports are pairwise different, the path of a transport with the RFCOMM
  bit is not in the reply.
\<close>

theorem enumerate_excludes_rfcomm:
  "bluealsa_manager_method_call n rf l h =
     map (pcm_of h) (filter (audio rf h) (registry_transports n l)) \<and>
   (\<forall>e \<in> set (bluealsa_manager_method_call n rf l h).
      \<exists>t \<in> set (registry_transports n l).
        profile (h t) AND rf = 0 \<and> e = (ba_dbus_path (h t), [])) \<and>
   (inj_on (\<lambda>t. ba_dbus_path (h t)) (set (registry_transports n l)) \<longrightarrow>
      (\<forall>t \<in> set (registry_transports n l).
         profile (h t) AND rf \<noteq> 0 \<longrightarrow>
           ba_dbus_path (h t) \<notin> fst ` set (bluealsa_manager_method_call n rf l h)))"
proof (intro conjI impI ballI)
  show "bluealsa_manager_method_call n rf l h =
      map (pcm_of h) (filter (audio rf h) (registry_transports n l))"
    by (rule method_call_eq)
next
  fix e assume "e \<in> set (bluealsa_manager_method_call n rf l h)"
  then obtain t where "t \<in> set (registry_transports n l)" "audio rf h t" "e = pcm_of h t"
    by (auto simp: method_call_eq)
  then show "\<exists>t \<in> set (registry_transports n l).
      profile (h t) AND rf = 0 \<and> e = (ba_dbus_path (h t), [])"
    by (auto simp: audio_def pcm_of_def)
next
  fix t
  assume inj: "inj_on (\<lambda>t. ba_dbus_path (h t)) (set (registry_transports n l))"
    and t: "t \<in> set (registry_transports n l)" and ctl: "profile (h t) AND rf \<noteq> 0"
  show "ba_dbus_path (h t) \<notin> fst ` set (bluealsa_manager_method_call n rf l h)"
  proof
    assume "ba_dbus_path (h t) \<in> fst ` set (bluealsa_manager_method_call n rf l h)"
    then obtain u where u: "u \<in> set (registry_transports n l)" "audio rf h u"
        "ba_dbus_path (h t) = ba_dbus_path (h u)"
      by (auto simp: method_call_eq pcm_of_def)
    from inj t u(1) u(3) have "t = u"
      by (auto dest: inj_onD)
    with u(2) ctl show False
      by (simp add: audio_def)
  qed
qed

theorem enumerate_excludes_rfcomm_witness:
  "(sink_path, []) \<in> set (bluealsa_manager_method_call 16 0x40 reg0 (mem fresh)) \<and>
   (\<exists>t \<in> set (registry_transports 16 reg0).
      profile (mem fresh t) AND 0x40 = 0 \<and> (sink_path, []) = (ba_dbus_path (mem fresh t), [])) \<and>
   inj_on (\<lambda>t. ba_dbus_path (mem fresh t)) (set (registry_transports 16 reg0)) \<and>
   1 \<in> set (registry_transports 16 reg0) \<and>
   profile (mem fresh 1) AND 0x40 \<noteq> 0 \<and>
   ba_dbus_path (mem fresh 1) \<notin> fst ` set (bluealsa_manager_method_call 16 0x40 reg0 (mem fresh))"
proof -
  have ts: "registry_transports 16 reg0 = [0, 1]"
    by (simp add: registry_transports_def reg0_def hci0_def adapter_transports_def
        device_transports_def upt_conv_Cons)
  have paths: "sink_path \<noteq> rfcomm_path"
    by (simp add: sink_path_def rfcomm_path_def)
  have inj: "inj_on (\<lambda>t. ba_dbus_path (mem fresh t)) (set (registry_transports 16 reg0))"
    using paths by (simp add: ts fresh_def a2dp_sink_def hfp_rfcomm_def)
  have bit: "profile (mem fresh 1) AND 0x40 \<noteq> 0"
    by (simp add: fresh_def hfp_rfcomm_def)
  have mem1: "1 \<in> set (registry_transports 16 reg0)"
    by (simp add: ts)
  have reply: "(sink_path, []) \<in> set (bluealsa_manager_method_call 16 0x40 reg0 (mem fresh))"
    by (simp add: method_call_eq ts fresh_def a2dp_sink_def hfp_rfcomm_def pcm_of_def audio_def)
  show ?thesis
    using enumerate_excludes_rfcomm [of 16 "0x40" reg0 "mem fresh"] reply inj bit mem1
    by blast
qed

text \<open>
  C5. Adapter 0 is the only adapter and has one device, whose table holds a transport
  without the RFCOMM bit (the streaming sink) and one with it (the control transport), in
  either iteration order. The method call returns one entry, the sink's path; after
  \<^verbatim>\<open>bluealsa_dbus_register_transport\<close> on the control transport, whatever the
  registration answers, it returns the same one entry.
\<close>

theorem enumerate_scenario:
  assumes "0 < n" and "l 0 = Some a" and "\<forall>i. 0 < i \<longrightarrow> l i = None"
    and "devices a = [(addr, d)]"
    and "transports d = [(k1, snk), (k2, ctl)] \<or> transports d = [(k2, ctl), (k1, snk)]"
    and "profile (mem s snk) AND rf = 0" and "profile (mem s ctl) AND rf \<noteq> 0"
  shows "bluealsa_manager_method_call n rf l (mem s) = [(ba_dbus_path (mem s snk), [])] \<and>
    bluealsa_manager_method_call n rf l
        (mem (snd (bluealsa_dbus_register_transport rid ctl s))) =
      [(ba_dbus_path (mem s snk), [])]"
proof -
  have "registry_transports n l = adapter_transports a"
    using assms(1-3) by (rule only_adapter_0)
  then have "registry_transports n l = [snk, ctl] \<or> registry_transports n l = [ctl, snk]"
    using assms(4,5) by (auto simp: adapter_transports_def device_transports_def)
  then have "bluealsa_manager_method_call n rf l (mem s) = [(ba_dbus_path (mem s snk), [])]"
    using assms(6,7) by (auto simp: method_call_eq audio_def pcm_of_def)
  then show ?thesis
    by (simp add: method_call_register)
qed

theorem enumerate_scenario_witness:
  "bluealsa_manager_method_call 16 0x40 reg0 (mem fresh) = [(sink_path, [])] \<and>
   bluealsa_manager_method_call 16 0x40 reg0
       (mem (snd (bluealsa_dbus_register_transport 7 1 fresh))) = [(sink_path, [])]"
proof -
  have h: "(0::nat) < 16" "reg0 0 = Some hci0" "\<forall>i. 0 < i \<longrightarrow> reg0 i = None"
    "devices hci0 = [(''AA:BB:CC:DD:EE:FF'', \<lparr>transports = [(''a2dp'', 0), (''rfcomm'', 1)]\<rparr>)]"
    by (simp_all add: reg0_def hci0_def)
  have t: "transports \<lparr>transports = [(''a2dp'', 0), (''rfcomm'', 1)]\<rparr> = [(''a2dp'', 0), (''rfcomm'', 1)]
      \<or> transports \<lparr>transports = [(''a2dp'', 0), (''rfcomm'', 1)]\<rparr> = [(''rfcomm'', 1), (''a2dp'', 0)]"
    by simp
  have p: "profile (mem fresh 0) AND 0x40 = 0" "profile (mem fresh 1) AND 0x40 \<noteq> 0"
    "ba_dbus_path (mem fresh 0) = sink_path"
    by (simp_all add: fresh_def a2dp_sink_def hfp_rfcomm_def)
  show ?thesis
    using enumerate_scenario [OF h t p(1) p(2), of 7] p(3) by simp
qed

text \<open>
  C9. The method call only reads, so a second call on an unchanged registry walks the same
  content; the tables may hand their entries out in another order. For two registries
  with the same content in any iteration orders, and the same memory, the two replies
  hold the same entries the same number of times, and so the same set of paths.
\<close>

theorem enumerate_order_independent:
  assumes "same_registry n l l'"
  shows "mset (bluealsa_manager_method_call n rf l h) =
      mset (bluealsa_manager_method_call n rf l' h) \<and>
    set (map fst (bluealsa_manager_method_call n rf l h)) =
      set (map fst (bluealsa_manager_method_call n rf l' h))"
proof -
  have m: "mset (bluealsa_manager_method_call n rf l h) =
      mset (bluealsa_manager_method_call n rf l' h)"
    using assms by (rule same_registry_reply)
  then have "set (bluealsa_manager_method_call n rf l h) =
      set (bluealsa_manager_method_call n rf l' h)"
    by (rule mset_eq_setD)
  with m show ?thesis
    by simp
qed

theorem enumerate_order_independent_witness:
  "same_registry 16 reg0 reg0_swapped \<and>
   mset (bluealsa_manager_method_call 16 0x40 reg0 (mem fresh)) =
     mset (bluealsa_manager_method_call 16 0x40 reg0_swapped (mem fresh)) \<and>
   set (map fst (bluealsa_manager_method_call 16 0x40 reg0 (mem fresh))) =
     set (map fst (bluealsa_manager_method_call 16 0x40 reg0_swapped (mem fresh)))"
proof -
  have h: "same_registry 16 reg0 reg0_swapped"
    by (simp add: same_registry_def reg0_def reg0_swapped_def hci0_def hci0_swapped_def
        adapter_content_def device_content_def add_mset_commute)
  show ?thesis
    using enumerate_order_independent [OF h, of "0x40" "mem fresh"] h by blast
qed

section \<open>Properties of the property handler and of the initialisation\<close>

text \<open>
  C8. Whatever the connection, the sender, the object path, the interface, the property's
  name (the empty name and the names of the manager's members included) and the transport
  behind the object, the handler returns no value and the error
  \<^verbatim>\<open>G_DBUS_ERROR_INVALID_ARGS\<close> of the D-Bus error domain whose message is
  \<^verbatim>\<open>No such property\<close> followed by the quoted name.
\<close>

theorem get_property_no_such_property:
  "snd (bluealsa_transport_get_property conn sender path interface property userdata) = None \<and>
   domain (fst (bluealsa_transport_get_property conn sender path interface property userdata))
     = G_DBUS_ERROR \<and>
   code (fst (bluealsa_transport_get_property conn sender path interface property userdata))
     = G_DBUS_ERROR_INVALID_ARGS \<and>
   message (fst (bluealsa_transport_get_property conn sender path interface property userdata))
     = ''No such property '' @ CHR 0x27 # property @ [CHR 0x27] \<and>
   bluealsa_transport_get_property conn sender path interface property userdata =
     bluealsa_transport_get_property conn' sender' path' interface' property userdata'"
  by (simp add: bluealsa_transport_get_property_def)

text \<open>
  C6, as the code has it. \<^verbatim>\<open>bluealsa_config_init\<close> returns 0 whatever the host
  answers; the descriptor member holds what \<^verbatim>\<open>open\<close> returned, a failure included.
\<close>

theorem config_init_returns_zero:
  "fst (bluealsa_config_init host cfg) = 0 \<and>
   null_fd (snd (bluealsa_config_init host cfg)) = sys_open host ''/dev/null''"
  by (simp add: bluealsa_config_init_def Let_def split: option.split)

text \<open>
  C6 as stated fails: on a host where \<^verbatim>\<open>open\<close> fails (it answers \<open>-1\<close>) the status
  is 0, with \<open>-1\<close> left in the descriptor member.
\<close>

theorem config_init_open_fails_status_zero:
  "sys_open host_without_dev_null ''/dev/null'' = - 1 \<and>
   fst (bluealsa_config_init host_without_dev_null config) = 0 \<and>
   null_fd (snd (bluealsa_config_init host_without_dev_null config)) = - 1"
  by (simp add: bluealsa_config_init_def host_without_dev_null_def Let_def)

text \<open>
  C7. On a host without a group named \<^verbatim>\<open>audio\<close>, \<^verbatim>\<open>bluealsa_config_init\<close> run on
  the initial \<^verbatim>\<open>config\<close> returns 0 and the group member keeps its initial value,
  \<open>(gid_t) -1\<close>; on any configuration it leaves the member as it was.
\<close>

theorem config_init_no_audio_group:
  assumes "getgrnam host ''audio'' = None"
  shows "fst (bluealsa_config_init host config) = 0 \<and>
    gid_audio (snd (bluealsa_config_init host config)) = - 1 \<and>
    gid_audio (snd (bluealsa_config_init host cfg)) = gid_audio cfg"
  using assms by (simp add: bluealsa_config_init_def config_def Let_def)

theorem config_init_no_audio_group_witness:
  "getgrnam host_without_audio_group ''audio'' = None \<and>
   fst (bluealsa_config_init host_without_audio_group config) = 0 \<and>
   gid_audio (snd (bluealsa_config_init host_without_audio_group config)) = - 1"
proof -
  have h: "getgrnam host_without_audio_group ''audio'' = None"
    by (simp add: host_without_audio_group_def)
  show ?thesis
    using config_init_no_audio_group [OF h, of config] h by blast
qed

end
